theory Spec2Isabelle
  imports Complex_Main "HOL-Library.Log_Nat"
begin

section \<open>Numbers of the program\<close>

text \<open>
  The numbers that \<^verbatim>\<open>app.py\<close> computes with are NumPy scalars: the cells of a food
  row taken with \<^verbatim>\<open>.iloc[0]\<close>, the columns of the log, the sums of pandas. The
  quantity is a Python float and a goal is a Python int; arithmetic between one of
  them and a NumPy scalar is NumPy's, so a division by zero raises nothing: it gives
  an infinity or NaN (with a warning). An integer cell enters the arithmetic as the
  binary64 number of its value.

  The model keeps the three special values of binary64 and takes every finite value as
  a real number. The operations \<open>f_mul\<close>, \<open>f_div\<close> and \<open>f_add\<close> give the exact result on
  finite values; the rounding of that result to binary64 (with the overflow to an
  infinity and the underflow) is the separate function \<open>b64\<close> below. Statements that
  follow the operations of the code one by one are made on the exact operations;
  where a claim compares two different computations the rounding decides, and the
  rounded operations are used. The sign of zero is not part of the model.
\<close>

datatype float64 = Num real | PosInf | NegInf | NaN

fun is_finite :: "float64 \<Rightarrow> bool" where
  "is_finite (Num a) = True"
| "is_finite PosInf = False"
| "is_finite NegInf = False"
| "is_finite NaN = False"

fun is_inf :: "float64 \<Rightarrow> bool" where
  "is_inf (Num a) = False"
| "is_inf PosInf = True"
| "is_inf NegInf = True"
| "is_inf NaN = False"

fun num_val :: "float64 \<Rightarrow> real" where
  "num_val (Num a) = a"
| "num_val PosInf = 0"
| "num_val NegInf = 0"
| "num_val NaN = 0"

text \<open>\<^verbatim>\<open>x * y\<close> on binary64: zero times an infinity is NaN, NaN is absorbing.\<close>

fun f_mul :: "float64 \<Rightarrow> float64 \<Rightarrow> float64" where
  "f_mul (Num a) (Num b) = Num (a * b)"
| "f_mul (Num a) PosInf = (if a = 0 then NaN else if 0 < a then PosInf else NegInf)"
| "f_mul (Num a) NegInf = (if a = 0 then NaN else if 0 < a then NegInf else PosInf)"
| "f_mul PosInf (Num b) = (if b = 0 then NaN else if 0 < b then PosInf else NegInf)"
| "f_mul NegInf (Num b) = (if b = 0 then NaN else if 0 < b then NegInf else PosInf)"
| "f_mul PosInf PosInf = PosInf"
| "f_mul PosInf NegInf = NegInf"
| "f_mul NegInf PosInf = NegInf"
| "f_mul NegInf NegInf = PosInf"
| "f_mul NaN y = NaN"
| "f_mul x NaN = NaN"

text \<open>
  \<^verbatim>\<open>x / y\<close> with NumPy's semantics: a finite nonzero value over zero is an infinity of
  its sign, zero over zero and infinity over infinity are NaN, a finite value over an
  infinity is zero.
\<close>

fun f_div :: "float64 \<Rightarrow> float64 \<Rightarrow> float64" where
  "f_div (Num a) (Num b) =
     (if b = 0 then (if a = 0 then NaN else if 0 < a then PosInf else NegInf)
      else Num (a / b))"
| "f_div (Num a) PosInf = Num 0"
| "f_div (Num a) NegInf = Num 0"
| "f_div PosInf (Num b) = (if 0 \<le> b then PosInf else NegInf)"
| "f_div NegInf (Num b) = (if 0 \<le> b then NegInf else PosInf)"
| "f_div PosInf PosInf = NaN"
| "f_div PosInf NegInf = NaN"
| "f_div NegInf PosInf = NaN"
| "f_div NegInf NegInf = NaN"
| "f_div NaN y = NaN"
| "f_div x NaN = NaN"

fun f_add :: "float64 \<Rightarrow> float64 \<Rightarrow> float64" where
  "f_add (Num a) (Num b) = Num (a + b)"
| "f_add (Num a) PosInf = PosInf"
| "f_add (Num a) NegInf = NegInf"
| "f_add PosInf (Num b) = PosInf"
| "f_add NegInf (Num b) = NegInf"
| "f_add PosInf PosInf = PosInf"
| "f_add NegInf NegInf = NegInf"
| "f_add PosInf NegInf = NaN"
| "f_add NegInf PosInf = NaN"
| "f_add NaN y = NaN"
| "f_add x NaN = NaN"

text \<open>\<^verbatim>\<open>x < y\<close>: every comparison with NaN is false.\<close>

fun f_lt :: "float64 \<Rightarrow> float64 \<Rightarrow> bool" where
  "f_lt (Num a) (Num b) = (a < b)"
| "f_lt (Num a) PosInf = True"
| "f_lt (Num a) NegInf = False"
| "f_lt PosInf y = False"
| "f_lt NegInf (Num b) = True"
| "f_lt NegInf PosInf = True"
| "f_lt NegInf NegInf = False"
| "f_lt NegInf NaN = False"
| "f_lt NaN y = False"
| "f_lt (Num a) NaN = False"

text \<open>
  \<^verbatim>\<open>Series.sum()\<close> and \<^verbatim>\<open>GroupBy.sum()\<close> with their defaults
  (\<^verbatim>\<open>skipna=True\<close>, \<^verbatim>\<open>min_count=0\<close>): NaN cells are left out, and the sum of no
  cell is zero.
\<close>

definition pd_sum :: "float64 list \<Rightarrow> float64" where
  "pd_sum xs = foldl f_add (Num 0) (filter (\<lambda>x. x \<noteq> NaN) xs)"

text \<open>The builtin \<^verbatim>\<open>min(a, b)\<close>: \<^verbatim>\<open>b\<close> replaces \<^verbatim>\<open>a\<close> only when \<^verbatim>\<open>b < a\<close>.\<close>

definition py_min :: "float64 \<Rightarrow> float64 \<Rightarrow> float64" where
  "py_min a b = (if f_lt b a then b else a)"

section \<open>Rounding to binary64\<close>

text \<open>
  A binary64 operation returns the exact result rounded to the nearest representable
  number, a tie going to the even significand. \<open>rne\<close> rounds to the nearest integer
  in this way. \<open>binade x\<close> is, for \<open>x > 0\<close>, the exponent \<open>e\<close> with
  \<open>2 ^ e \<le> x < 2 ^ (e + 1)\<close>. A representable number of exponent \<open>e\<close> is a multiple
  of \<open>2 ^ (e - 52)\<close> (53 significant bits); the exponents go from -1022 to 1023, the
  numbers below \<open>2 ^ -1022\<close> are the multiples of \<open>2 ^ -1074\<close>, and a result that
  rounds to \<open>2 ^ 1024\<close> or more is an infinity.
\<close>

definition rne :: "real \<Rightarrow> int" where
  "rne t =
     (let n = \<lfloor>t\<rfloor>; d = t - of_int n
      in if d < 1 / 2 then n else if 1 / 2 < d then n + 1
         else if even n then n else n + 1)"

definition binade :: "real \<Rightarrow> int" where
  "binade x =
     (if 1 \<le> x then bitlen \<lfloor>x\<rfloor> - 1
      else (let j = bitlen \<lfloor>1 / x\<rfloor> - 1 in if 1 / x = 2 ^ nat j then - j else - j - 1))"

definition b64 :: "real \<Rightarrow> float64" where
  "b64 x =
     (if x = 0 then Num 0
      else (let e = max (binade \<bar>x\<bar>) (- 1022);
                u = 2 powi (e - 52);
                y = of_int (rne (\<bar>x\<bar> / u)) * u
            in if 2 ^ 1024 \<le> y then (if 0 < x then PosInf else NegInf)
               else Num (if 0 < x then y else - y)))"

fun rnd :: "float64 \<Rightarrow> float64" where
  "rnd (Num a) = b64 a"
| "rnd PosInf = PosInf"
| "rnd NegInf = NegInf"
| "rnd NaN = NaN"

section \<open>Dates\<close>

text \<open>
  A \<^verbatim>\<open>datetime.date\<close> is its day number (days since 1970-01-01) and a pandas
  \<^verbatim>\<open>Timestamp\<close> is its number of nanoseconds since the epoch, as pandas stores it. The
  bounds of the 64-bit timestamp (years 1677 to 2262) and \<^verbatim>\<open>NaT\<close> are left out.
\<close>

type_synonym pydate = int
type_synonym timestamp = int

definition ns_per_day :: int where
  "ns_per_day = 86400000000000"

definition to_datetime :: "pydate \<Rightarrow> timestamp" where
  "to_datetime day = day * ns_per_day"

definition Timedelta :: "int \<Rightarrow> int" where
  "Timedelta days = days * ns_per_day"

definition dt_date :: "timestamp \<Rightarrow> pydate" where
  "dt_date ts = ts div ns_per_day"

section \<open>Text\<close>

text \<open>
  A Python \<^verbatim>\<open>str\<close> is a sequence of Unicode code points, so text is a list of code
  points here; \<open>str\<close> reads an ASCII literal as such a list.
\<close>

type_synonym codepoint = nat
type_synonym pystr = "codepoint list"

definition str :: "string \<Rightarrow> pystr" where
  "str s = map of_char s"

text \<open>
  \<^verbatim>\<open>str.isspace\<close> of one character: the code points that CPython's
  \<^verbatim>\<open>_PyUnicode_IsWhitespace\<close> lists (bidirectional type WS, B or S, or category Zs).
\<close>

definition isspace :: "codepoint \<Rightarrow> bool" where
  "isspace c =
     (c \<in> set [0x0009, 0x000A, 0x000B, 0x000C, 0x000D, 0x001C, 0x001D, 0x001E, 0x001F,
               0x0020, 0x0085, 0x00A0, 0x1680, 0x2000, 0x2001, 0x2002, 0x2003, 0x2004,
               0x2005, 0x2006, 0x2007, 0x2008, 0x2009, 0x200A, 0x2028, 0x2029, 0x202F,
               0x205F, 0x3000])"

text \<open>\<^verbatim>\<open>str.strip()\<close>: the whitespace at both ends is removed.\<close>

definition strip :: "pystr \<Rightarrow> pystr" where
  "strip s = rev (dropWhile isspace (rev (dropWhile isspace s)))"

section \<open>Tables\<close>

record nutrients =
  calories :: float64
  protein_g :: float64
  fat_g :: float64
  sat_fat_g :: float64

record serving = nutrients +
  base_amount :: float64
  unit :: pystr

record food_row = serving +
  name :: pystr

record log_row = serving +
  date :: timestamp
  food :: pystr
  quantity :: float64

record day_row =
  bd_date :: pydate
  bd_calories :: float64
  bd_protein_g :: float64
  bd_sat_fat_g :: float64

text \<open>The two rows that \<^verbatim>\<open>load_foods\<close> writes when \<^verbatim>\<open>foods.csv\<close> does not exist.\<close>

definition chicken_breast :: food_row where
  "chicken_breast =
     \<lparr>calories = Num 165, protein_g = Num 31, fat_g = Num (36 / 10), sat_fat_g = Num 1,
      base_amount = Num 100, unit = str ''g'', name = str ''Chicken breast (raw)''\<rparr>"

definition rolled_oats :: food_row where
  "rolled_oats =
     \<lparr>calories = Num 379, protein_g = Num 13, fat_g = Num 7, sat_fat_g = Num (12 / 10),
      base_amount = Num 100, unit = str ''g'', name = str ''Rolled oats (dry)''\<rparr>"

definition seed :: "food_row list" where
  "seed = [chicken_breast, rolled_oats]"

section \<open>Helper computations\<close>

text \<open>
  The source has no \<^verbatim>\<open>raise\<close>. \<^verbatim>\<open>IndexError\<close> is what \<^verbatim>\<open>.iloc[0]\<close> raises on an
  empty selection and \<^verbatim>\<open>AttributeError\<close> what the \<^verbatim>\<open>.dt\<close> accessor raises on a column
  that holds no datetimes; the other three are the failures the specification names,
  which no path of the source produces.
\<close>

datatype error =
  IndexError | AttributeError | InvalidQuantityError | DuplicateNameError | ValidationError

definition compute_nutrients :: "'a serving_scheme \<Rightarrow> float64 \<Rightarrow> error + nutrients" where
  "compute_nutrients row qty =
     (let factor = f_div qty (base_amount row)
      in Inr \<lparr>calories = f_mul (calories row) factor,
              protein_g = f_mul (protein_g row) factor,
              fat_g = f_mul (fat_g row) factor,
              sat_fat_g = f_mul (sat_fat_g row) factor\<rparr>)"

text \<open>
  The same function with its two operations rounded: the factor is the binary64
  quotient, each field the binary64 product.
\<close>

definition compute_nutrients_b64 :: "'a serving_scheme \<Rightarrow> float64 \<Rightarrow> error + nutrients" where
  "compute_nutrients_b64 row qty =
     (let factor = rnd (f_div qty (base_amount row))
      in Inr \<lparr>calories = rnd (f_mul (calories row) factor),
              protein_g = rnd (f_mul (protein_g row) factor),
              fat_g = rnd (f_mul (fat_g row) factor),
              sat_fat_g = rnd (f_mul (sat_fat_g row) factor)\<rparr>)"

text \<open>
  \<^verbatim>\<open>daily_summary\<close>: the rows whose timestamp equals midnight of \<^verbatim>\<open>day\<close>, and the
  sums of their four nutrient columns.
\<close>

definition daily_summary :: "log_row list \<Rightarrow> pydate \<Rightarrow> log_row list \<times> nutrients" where
  "daily_summary log_df day =
     (let day_df = filter (\<lambda>r. date r = to_datetime day) log_df;
          totals = \<lparr>calories = pd_sum (map calories day_df),
                    protein_g = pd_sum (map protein_g day_df),
                    fat_g = pd_sum (map fat_g day_df),
                    sat_fat_g = pd_sum (map sat_fat_g day_df)\<rparr>
      in (day_df, totals))"

text \<open>
  \<^verbatim>\<open>week.groupby(week["date"].dt.date)[[...]].sum().reset_index()\<close>: one row for each key
  that occurs, the keys in ascending order (\<^verbatim>\<open>sort=True\<close> is the default), each row the
  sums over the rows of its key.
\<close>

definition groupby_date_sum :: "log_row list \<Rightarrow> day_row list" where
  "groupby_date_sum week =
     map (\<lambda>k. let g = filter (\<lambda>r. dt_date (date r) = k) week
               in \<lparr>bd_date = k,
                   bd_calories = pd_sum (map calories g),
                   bd_protein_g = pd_sum (map protein_g g),
                   bd_sat_fat_g = pd_sum (map sat_fat_g g)\<rparr>)
         (sort (remdups (map (\<lambda>r. dt_date (date r)) week)))"

text \<open>
  \<^verbatim>\<open>weekly_summary\<close>. A table with no row is what \<^verbatim>\<open>read_csv\<close> gives for a file that
  holds the header only (the file that \<^verbatim>\<open>load_log\<close> creates): its date column holds
  no datetime and is typed \<^verbatim>\<open>object\<close>, so the \<^verbatim>\<open>.dt\<close> accessor of the grouping raises
  \<^verbatim>\<open>AttributeError\<close>. A table with a row has a datetime column, and keeps it when the
  window keeps no row.
\<close>

definition weekly_summary ::
  "log_row list \<Rightarrow> pydate \<Rightarrow> error + log_row list \<times> day_row list" where
  "weekly_summary log_df end_day =
     (let start = to_datetime end_day - Timedelta 6;
          week = filter (\<lambda>r. start \<le> date r \<and> date r \<le> to_datetime end_day) log_df
      in if log_df = [] then Inl AttributeError
         else (let by_day = groupby_date_sum week in Inr (week, by_day)))"

section \<open>The stored tables and the operations of the pages\<close>

text \<open>
  The state is what the two files hold. The script reads both files at the start of
  every run, so the variables \<^verbatim>\<open>foods\<close> and \<^verbatim>\<open>log\<close> of a run are these tables.
\<close>

record app_state =
  foods_csv :: "food_row list"
  log_csv :: "log_row list"

datatype notice = success | warning

definition save_foods :: "food_row list \<Rightarrow> app_state \<Rightarrow> app_state" where
  "save_foods df st = st\<lparr>foods_csv := df\<rparr>"

definition save_log :: "log_row list \<Rightarrow> app_state \<Rightarrow> app_state" where
  "save_log df st = st\<lparr>log_csv := df\<rparr>"

text \<open>\<^verbatim>\<open>foods[foods["name"] == food_choice].iloc[0]\<close>: the first row of that name.\<close>

definition food_row_of :: "food_row list \<Rightarrow> pystr \<Rightarrow> error + food_row" where
  "food_row_of foods food_choice =
     (case filter (\<lambda>r. name r = food_choice) foods of
        [] \<Rightarrow> Inl IndexError
      | r # rs \<Rightarrow> Inr r)"

text \<open>
  The button "Add to log". \<^verbatim>\<open>food_row\<close> is the row that the page has looked up for
  the chosen name, \<^verbatim>\<open>qty\<close> the value of the quantity widget. The new row is appended
  to the table and the table is saved.
\<close>

definition new_log_row :: "pydate \<Rightarrow> pystr \<Rightarrow> food_row \<Rightarrow> float64 \<Rightarrow> nutrients \<Rightarrow> log_row" where
  "new_log_row log_date food_choice food_row qty n =
     \<lparr>calories = calories n, protein_g = protein_g n, fat_g = fat_g n,
      sat_fat_g = sat_fat_g n,
      base_amount = base_amount food_row, unit = unit food_row,
      date = to_datetime log_date, food = food_choice, quantity = qty\<rparr>"

definition add_to_log ::
  "pydate \<Rightarrow> pystr \<Rightarrow> food_row \<Rightarrow> float64 \<Rightarrow> app_state \<Rightarrow> error + notice \<times> app_state" where
  "add_to_log log_date food_choice food_row qty st =
     (case compute_nutrients food_row qty of
        Inl e \<Rightarrow> Inl e
      | Inr n \<Rightarrow>
          Inr (success,
               save_log (log_csv st @ [new_log_row log_date food_choice food_row qty n]) st))"

text \<open>
  The progress bars of the page "Today": \<^verbatim>\<open>min(totals.get(n, 0) / goal, 1.0)\<close>. The goal
  is the integer of the sidebar widget.
\<close>

definition progress :: "float64 \<Rightarrow> int \<Rightarrow> float64" where
  "progress tot goal = py_min (f_div tot (Num (of_int goal))) (Num 1)"

text \<open>The button "Add food": a name of whitespace only gives a warning and no write.\<close>

definition add_food ::
  "pystr \<Rightarrow> float64 \<Rightarrow> pystr \<Rightarrow> float64 \<Rightarrow> float64 \<Rightarrow> float64 \<Rightarrow> float64 \<Rightarrow> app_state
     \<Rightarrow> error + notice \<times> app_state" where
  "add_food nm base u cal protein fat sat_fat st =
     (if strip nm \<noteq> []
      then (let new_row = \<lparr>calories = cal, protein_g = protein, fat_g = fat,
                            sat_fat_g = sat_fat, base_amount = base, unit = u,
                            name = strip nm\<rparr>;
                foods_updated = foods_csv st @ [new_row]
            in Inr (success, save_foods foods_updated st))
      else Inr (warning, st))"

text \<open>
  The upload of \<^verbatim>\<open>log.csv\<close>: the table that \<^verbatim>\<open>read_csv\<close> has parsed is saved as it is.
\<close>

definition upload_log :: "log_row list \<Rightarrow> app_state \<Rightarrow> error + notice \<times> app_state" where
  "upload_log new_log st = Inr (success, save_log new_log st)"

section \<open>Sample tables\<close>

text \<open>
  The state after a first run with neither file present: \<^verbatim>\<open>load_foods\<close> has written
  the seed rows and \<^verbatim>\<open>load_log\<close> a table with the header only.
\<close>

definition fresh :: app_state where
  "fresh = \<lparr>foods_csv = seed, log_csv = []\<rparr>"

text \<open>A row of an uploaded \<^verbatim>\<open>foods.csv\<close> whose base amount is 0.\<close>

definition zero_base_oats :: food_row where
  "zero_base_oats = rolled_oats\<lparr>base_amount := Num 0\<rparr>"

text \<open>
  Rows of a log. Day 19723 is 2024-01-01. The first three rows are as the button
  "Add to log" writes them, at midnight; the fourth comes from an edited file and
  carries the time 08:00 on 2024-01-04; the fifth has a negative quantity.
\<close>

definition oats_jan1 :: log_row where
  "oats_jan1 =
     \<lparr>calories = Num (1895 / 10), protein_g = Num (65 / 10), fat_g = Num (35 / 10),
      sat_fat_g = Num (6 / 10), base_amount = Num 100, unit = str ''g'',
      date = to_datetime 19723, food = str ''Rolled oats (dry)'', quantity = Num 50\<rparr>"

definition chicken_jan1 :: log_row where
  "chicken_jan1 =
     \<lparr>calories = Num 330, protein_g = Num 62, fat_g = Num (72 / 10),
      sat_fat_g = Num 2, base_amount = Num 100, unit = str ''g'',
      date = to_datetime 19723, food = str ''Chicken breast (raw)'', quantity = Num 200\<rparr>"

definition oats_jan3 :: log_row where
  "oats_jan3 =
     \<lparr>calories = Num 379, protein_g = Num 13, fat_g = Num 7,
      sat_fat_g = Num (12 / 10), base_amount = Num 100, unit = str ''g'',
      date = to_datetime 19725, food = str ''Rolled oats (dry)'', quantity = Num 100\<rparr>"

definition oats_jan4_8am :: log_row where
  "oats_jan4_8am =
     \<lparr>calories = Num (1895 / 10), protein_g = Num (65 / 10), fat_g = Num (35 / 10),
      sat_fat_g = Num (6 / 10), base_amount = Num 100, unit = str ''g'',
      date = to_datetime 19726 + 8 * 3600000000000,
      food = str ''Rolled oats (dry)'', quantity = Num 50\<rparr>"

definition negative_row :: log_row where
  "negative_row =
     \<lparr>calories = Num (- 379), protein_g = Num (- 13), fat_g = Num (- 7),
      sat_fat_g = Num (- (12 / 10)), base_amount = Num 100, unit = str ''g'',
      date = to_datetime 19723, food = str ''Rolled oats (dry)'', quantity = Num (- 100)\<rparr>"

definition written_log :: "log_row list" where
  "written_log = [oats_jan1, chicken_jan1, oats_jan3]"

definition sample_log :: "log_row list" where
  "sample_log = [oats_jan1, chicken_jan1, oats_jan3, oats_jan4_8am]"

text \<open>The seed catalog with the three midnight rows logged.\<close>

definition logged :: app_state where
  "logged = \<lparr>foods_csv = seed, log_csv = written_log\<rparr>"

text \<open>
  A name typed with a no-break space (U+00A0) in front and an em space (U+2003) and a
  blank behind.
\<close>

definition padded_chicken :: pystr where
  "padded_chicken = 0xA0 # str ''Chicken breast (raw)'' @ [0x2003, 0x20]"

section \<open>Facts about the numbers and the dates\<close>

lemmas date_defs = to_datetime_def Timedelta_def ns_per_day_def dt_date_def

lemmas sample_defs = sample_log_def written_log_def oats_jan1_def chicken_jan1_def
  oats_jan3_def oats_jan4_8am_def

lemma f_mul_NaN_right: "f_mul x NaN = NaN"
  by (cases x) simp_all

lemma f_div_zero_NaN: "f_div q (Num 0) = NaN \<longleftrightarrow> q = Num 0 \<or> q = NaN"
  by (cases q) simp_all

lemma f_div_zero_inf: "q \<noteq> Num 0 \<Longrightarrow> q \<noteq> NaN \<Longrightarrow> is_inf (f_div q (Num 0))"
  by (cases q) simp_all

lemma f_mul_inf:
  "is_inf y \<Longrightarrow>
   (if x = Num 0 \<or> x = NaN then f_mul x y = NaN else is_inf (f_mul x y))"
  by (cases x; cases y) simp_all

lemma f_div_zero_not_finite: "\<not> is_finite (f_mul x (f_div q (Num 0)))"
proof (cases "q = Num 0 \<or> q = NaN")
  case True
  then have "f_div q (Num 0) = NaN" by (simp add: f_div_zero_NaN)
  then show ?thesis by (simp add: f_mul_NaN_right)
next
  case False
  then have "is_inf (f_div q (Num 0))" by (simp add: f_div_zero_inf)
  from f_mul_inf [OF this, of x] show ?thesis
    by (cases "f_mul x (f_div q (Num 0))") (auto split: if_splits)
qed

lemma pd_sum_Nil: "pd_sum [] = Num 0"
  by (simp add: pd_sum_def)

text \<open>Facts about the rounding.\<close>

lemma rne_error: "\<bar>of_int (rne t) - t\<bar> \<le> 1 / 2"
proof -
  have "of_int \<lfloor>t\<rfloor> \<le> t" and "t < of_int \<lfloor>t\<rfloor> + 1" by linarith+
  then show ?thesis by (auto simp: rne_def Let_def)
qed

lemma powi_nat: "0 \<le> e \<Longrightarrow> (2::real) powi e = 2 ^ nat e"
  by (simp add: power_int_def)

lemma powi_neg: "0 \<le> j \<Longrightarrow> (2::real) powi (- j) = 1 / 2 ^ nat j"
  by (simp add: power_int_def field_simps)

lemma bitlen_real_bounds:
  fixes z :: real
  assumes "1 \<le> z"
  defines "j \<equiv> bitlen \<lfloor>z\<rfloor> - 1"
  shows "0 \<le> j" and "2 ^ nat j \<le> z" and "z < 2 ^ nat (j + 1)"
proof -
  from assms(1) have k: "0 < \<lfloor>z\<rfloor>" by linarith
  from bitlen_bounds [OF k]
  have lo: "2 ^ nat (bitlen \<lfloor>z\<rfloor> - 1) \<le> \<lfloor>z\<rfloor>" and hi: "\<lfloor>z\<rfloor> < 2 ^ nat (bitlen \<lfloor>z\<rfloor>)"
    by simp_all
  from k have "0 < bitlen \<lfloor>z\<rfloor>"
    using bitlen_nonneg [of "\<lfloor>z\<rfloor>"] bitlen_eq_zero_iff [of "\<lfloor>z\<rfloor>"] by linarith
  then show "0 \<le> j" by (simp add: j_def)
  from lo have "(of_int (2 ^ nat j) :: real) \<le> of_int \<lfloor>z\<rfloor>"
    unfolding j_def by (rule of_int_le_iff [THEN iffD2])
  also have "\<dots> \<le> z" by (rule of_int_floor_le)
  finally show "2 ^ nat j \<le> z" by simp
  from hi have "\<lfloor>z\<rfloor> + 1 \<le> 2 ^ nat (bitlen \<lfloor>z\<rfloor>)" by simp
  then have "(of_int (\<lfloor>z\<rfloor> + 1) :: real) \<le> of_int (2 ^ nat (bitlen \<lfloor>z\<rfloor>))"
    by (rule of_int_le_iff [THEN iffD2])
  then have "of_int \<lfloor>z\<rfloor> + 1 \<le> (2::real) ^ nat (bitlen \<lfloor>z\<rfloor>)" by simp
  moreover have "z < of_int \<lfloor>z\<rfloor> + 1" by linarith
  ultimately have "z < 2 ^ nat (bitlen \<lfloor>z\<rfloor>)" by linarith
  moreover have "bitlen \<lfloor>z\<rfloor> = j + 1" by (simp add: j_def)
  ultimately show "z < 2 ^ nat (j + 1)" by simp
qed

lemma binade_bounds:
  assumes "0 < x"
  shows "2 powi (binade x) \<le> x" and "x < 2 powi (binade x + 1)"
proof -
  have "2 powi (binade x) \<le> x \<and> x < 2 powi (binade x + 1)"
  proof (cases "1 \<le> x")
    case True
    note b = bitlen_real_bounds [OF True]
    from True have e: "binade x = bitlen \<lfloor>x\<rfloor> - 1" by (simp add: binade_def)
    from b have "2 powi (bitlen \<lfloor>x\<rfloor> - 1) \<le> x" and "x < 2 powi (bitlen \<lfloor>x\<rfloor> - 1 + 1)"
      by (simp_all add: powi_nat)
    then show ?thesis unfolding e by blast
  next
    case False
    define z where "z = 1 / x"
    from assms False have z: "1 \<le> z" unfolding z_def by (simp add: le_divide_eq_1_pos)
    define j where "j = bitlen \<lfloor>z\<rfloor> - 1"
    note b = bitlen_real_bounds [OF z, folded j_def]
    from assms have x: "x = 1 / z" by (simp add: z_def)
    have zpos: "0 < z" using z by simp
    show ?thesis
    proof (cases "z = 2 ^ nat j")
      case True
      with False have e: "binade x = - j" by (simp add: binade_def z_def j_def Let_def)
      have eq: "x = 2 powi (- j)" using True b(1) by (simp add: x powi_neg)
      have "(2::real) powi (- j) < 2 powi (- j + 1)"
        by (rule power_int_strict_increasing) simp_all
      with eq have "2 powi (- j) \<le> x" and "x < 2 powi (- j + 1)" by simp_all
      then show ?thesis unfolding e by blast
    next
      case neq: False
      with False have e: "binade x = - j - 1" by (simp add: binade_def z_def j_def Let_def)
      from neq b(2) have "2 ^ nat j < z" by simp
      then have "1 / z < 1 / 2 ^ nat j" using zpos by (simp add: field_simps)
      then have up: "x < 2 powi (- j)" using b(1) by (simp add: x powi_neg)
      from b(3) have "1 / 2 ^ nat (j + 1) < 1 / z" using zpos by (simp add: field_simps)
      moreover have "(2::real) powi (- j - 1) = 1 / 2 ^ nat (j + 1)"
        using b(1) powi_neg [of "j + 1"] by simp
      ultimately have lo: "2 powi (- j - 1) \<le> x" by (simp add: x)
      from up have "x < 2 powi (- j - 1 + 1)" by simp
      with lo show ?thesis unfolding e by blast
    qed
  qed
  then show "2 powi (binade x) \<le> x" and "x < 2 powi (binade x + 1)" by simp_all
qed

text \<open>
  In the normal range the rounded value is finite and within the relative error
  \<open>2 ^ -53\<close> of the exact one.
\<close>

lemma b64_error:
  assumes lo: "2 powi (- 1022) \<le> \<bar>x\<bar>" and hi: "\<bar>x\<bar> < 2 powi 1023"
  shows "\<exists>y. b64 x = Num y \<and> \<bar>y - x\<bar> \<le> 2 powi (- 53) * \<bar>x\<bar>"
proof -
  have "(0::real) < 2 powi (- 1022)" by simp
  with lo have pos: "0 < \<bar>x\<bar>" by linarith
  then have x0: "x \<noteq> 0" by simp
  define e where "e = binade \<bar>x\<bar>"
  from binade_bounds [OF pos]
  have e_lo: "2 powi e \<le> \<bar>x\<bar>" and e_hi: "\<bar>x\<bar> < 2 powi (e + 1)"
    by (simp_all add: e_def)
  from lo e_hi have less: "(2::real) powi (- 1022) < 2 powi (e + 1)" by linarith
  have "- 1022 < e + 1"
  proof (rule ccontr)
    assume "\<not> - 1022 < e + 1"
    then have "e + 1 \<le> - 1022" by simp
    then have "(2::real) powi (e + 1) \<le> 2 powi (- 1022)"
      by (intro power_int_increasing) simp_all
    with less show False by simp
  qed
  then have e_max: "max e (- 1022) = e" by simp
  define u :: real where "u = 2 powi (e - 52)"
  have u_pos: "0 < u" by (simp add: u_def)
  define m where "m = rne (\<bar>x\<bar> / u)"
  define y where "y = of_int m * u"
  have "\<bar>of_int m - \<bar>x\<bar> / u\<bar> \<le> 1 / 2" unfolding m_def by (rule rne_error)
  then have "\<bar>of_int m - \<bar>x\<bar> / u\<bar> * u \<le> 1 / 2 * u"
    using u_pos by (simp add: mult_right_mono)
  moreover have "\<bar>of_int m - \<bar>x\<bar> / u\<bar> * u = \<bar>y - \<bar>x\<bar>\<bar>"
    using u_pos by (simp add: y_def abs_mult [symmetric] left_diff_distrib del: abs_mult)
      (simp add: abs_mult [symmetric] field_simps del: abs_mult)
  ultimately have near: "\<bar>y - \<bar>x\<bar>\<bar> \<le> u / 2" by simp
  have u_half: "u / 2 = 2 powi (- 53) * 2 powi e"
    by (simp add: u_def power_int_diff power_int_minus field_simps)
  have "2 powi (- 53) * 2 powi e \<le> 2 powi (- 53) * \<bar>x\<bar>"
    using e_lo by (simp add: mult_left_mono)
  with near u_half have err: "\<bar>y - \<bar>x\<bar>\<bar> \<le> 2 powi (- 53) * \<bar>x\<bar>" by linarith
  have "(2::real) powi (- 53) \<le> 1" by (simp add: power_int_minus field_simps)
  then have "2 powi (- 53) * \<bar>x\<bar> \<le> \<bar>x\<bar>" by (simp add: mult_left_le_one_le)
  with err have "y \<le> 2 * \<bar>x\<bar>" by linarith
  also have "\<dots> < 2 * 2 powi 1023" using hi by simp
  also have "\<dots> = 2 ^ 1024" by (simp add: power_int_def)
  finally have fin: "\<not> 2 ^ 1024 \<le> y" by simp
  have "b64 x = (if 2 ^ 1024 \<le> y then (if 0 < x then PosInf else NegInf)
                  else Num (if 0 < x then y else - y))"
    using x0 unfolding b64_def Let_def e_def [symmetric] e_max u_def [symmetric]
      m_def [symmetric] y_def [symmetric]
    by (simp only: if_False)
  with fin have val: "b64 x = Num (if 0 < x then y else - y)"
    by (simp only: if_False)
  have "\<bar>(if 0 < x then y else - y) - x\<bar> = \<bar>y - \<bar>x\<bar>\<bar>"
    using x0 by (auto simp: abs_if)
  with err val show ?thesis by auto
qed

text \<open>Midnight of a day falls on that day.\<close>

lemma dt_date_to_datetime: "dt_date (to_datetime d) = d"
  by (simp add: date_defs)

text \<open>A timestamp lies between midnight of its day and midnight of the next day.\<close>

lemma dt_date_bounds:
  "dt_date ts = d \<longleftrightarrow> to_datetime d \<le> ts \<and> ts < to_datetime (d + 1)"
  unfolding dt_date_def to_datetime_def ns_per_day_def by auto

lemma to_datetime_le: "to_datetime a \<le> to_datetime b \<longleftrightarrow> a \<le> b"
  by (simp add: to_datetime_def ns_per_day_def)

lemma to_datetime_less: "to_datetime a < to_datetime b \<longleftrightarrow> a < b"
  by (simp add: to_datetime_def ns_per_day_def)

lemma to_datetime_minus: "to_datetime end_day - Timedelta 6 = to_datetime (end_day - 6)"
  by (simp add: to_datetime_def Timedelta_def algebra_simps)

text \<open>
  The window of the week that ends on day \<open>d\<close>, by calendar days: the six days before
  \<open>d\<close> at any time of day, and day \<open>d\<close> at midnight only.
\<close>

lemma window_by_day:
  "to_datetime (d - 6) \<le> ts \<and> ts \<le> to_datetime d \<longleftrightarrow>
   (d - 6 \<le> dt_date ts \<and> dt_date ts < d) \<or> ts = to_datetime d"
proof -
  have day: "to_datetime (dt_date ts) \<le> ts" "ts < to_datetime (dt_date ts + 1)"
    using dt_date_bounds [of ts "dt_date ts"] by simp_all
  show ?thesis
  proof
    assume w: "to_datetime (d - 6) \<le> ts \<and> ts \<le> to_datetime d"
    with day have "to_datetime (d - 6) < to_datetime (dt_date ts + 1)"
      and le: "to_datetime (dt_date ts) \<le> to_datetime d"
      by linarith+
    then have lo: "d - 6 \<le> dt_date ts" and hi: "dt_date ts \<le> d"
      by (simp_all add: to_datetime_less to_datetime_le)
    show "(d - 6 \<le> dt_date ts \<and> dt_date ts < d) \<or> ts = to_datetime d"
    proof (cases "dt_date ts = d")
      case True
      with day(1) w have "ts = to_datetime d" by simp
      then show ?thesis ..
    next
      case False
      with lo hi show ?thesis by simp
    qed
  next
    assume "(d - 6 \<le> dt_date ts \<and> dt_date ts < d) \<or> ts = to_datetime d"
    then show "to_datetime (d - 6) \<le> ts \<and> ts \<le> to_datetime d"
    proof
      assume a: "d - 6 \<le> dt_date ts \<and> dt_date ts < d"
      then have "to_datetime (d - 6) \<le> to_datetime (dt_date ts)"
        and "to_datetime (dt_date ts + 1) \<le> to_datetime d"
        by (simp_all add: to_datetime_le)
      with day show ?thesis by linarith
    next
      assume "ts = to_datetime d"
      then show ?thesis by (simp add: to_datetime_le)
    qed
  qed
qed

section \<open>The nutrient scaler\<close>

lemma compute_nutrients_returns:
  "compute_nutrients f q =
     Inr \<lparr>calories = f_mul (calories f) (f_div q (base_amount f)),
          protein_g = f_mul (protein_g f) (f_div q (base_amount f)),
          fat_g = f_mul (fat_g f) (f_div q (base_amount f)),
          sat_fat_g = f_mul (sat_fat_g f) (f_div q (base_amount f))\<rparr>"
  by (simp add: compute_nutrients_def Let_def)

lemma compute_nutrients_b64_returns:
  assumes "base_amount f = Num b" and "b \<noteq> 0"
  shows "compute_nutrients_b64 f (Num q) =
           Inr \<lparr>calories = rnd (f_mul (calories f) (b64 (q / b))),
                protein_g = rnd (f_mul (protein_g f) (b64 (q / b))),
                fat_g = rnd (f_mul (fat_g f) (b64 (q / b))),
                sat_fat_g = rnd (f_mul (sat_fat_g f) (b64 (q / b)))\<rparr>"
  using assms by (simp add: compute_nutrients_b64_def Let_def)

text \<open>
  Two roundings, of the factor and of the product, keep the result within the relative
  error \<open>2 ^ -51\<close> of the exact product when neither leaves the normal range.
\<close>

lemma scaled_error:
  assumes q: "2 powi (- 1022) \<le> k" "k < 2 powi 1023"
    and c: "2 powi (- 1021) \<le> \<bar>c * k\<bar>" "\<bar>c * k\<bar> < 2 powi 1022"
  shows "\<exists>r. rnd (f_mul (Num c) (b64 k)) = Num r \<and> \<bar>r - c * k\<bar> \<le> 2 powi (- 51) * \<bar>c * k\<bar>"
proof -
  define eps :: real where "eps = 2 powi (- 53)"
  have eps: "0 < eps" "eps \<le> 1 / 2" "4 * eps = 2 powi (- 51)"
    by (simp_all add: eps_def power_int_minus)
  have "(0::real) < 2 powi (- 1022)" by simp
  with q(1) have kpos: "0 < k" by linarith
  then have kabs: "\<bar>k\<bar> = k" by simp
  from b64_error [of k] q obtain p where p: "b64 k = Num p" and pe: "\<bar>p - k\<bar> \<le> eps * k"
    unfolding eps_def kabs by blast
  define A where "A = \<bar>c * k\<bar>"
  define T where "T = eps * A"
  have A0: "0 \<le> A" by (simp add: A_def)
  have T0: "0 \<le> T" unfolding T_def using eps(1) A0 by simp
  have TA: "T \<le> A / 2"
  proof -
    have "eps * A \<le> 1 / 2 * A" using eps(2) A0 by (rule mult_right_mono)
    then show ?thesis by (simp add: T_def)
  qed
  have d1: "\<bar>c * p - c * k\<bar> \<le> T"
  proof -
    have "\<bar>c * p - c * k\<bar> = \<bar>c\<bar> * \<bar>p - k\<bar>"
      by (simp add: abs_mult [symmetric] right_diff_distrib del: abs_mult)
    also have "\<dots> \<le> \<bar>c\<bar> * (eps * k)" using pe by (simp add: mult_left_mono)
    also have "\<dots> = eps * (\<bar>c\<bar> * \<bar>k\<bar>)" by (simp add: kabs)
    also have "\<dots> = T" by (simp add: T_def A_def abs_mult)
    finally show ?thesis .
  qed
  have "(2::real) powi (- 1022 + 1) = 2 powi (- 1022) * 2"
    and "(2::real) powi (1022 + 1) = 2 powi 1022 * 2"
    by (rule power_int_add_1, simp)+
  then have two: "(2::real) powi (- 1021) = 2 * 2 powi (- 1022)"
    "(2::real) powi 1023 = 2 * 2 powi 1022"
    by simp_all
  from d1 TA T0 have lo: "A / 2 \<le> \<bar>c * p\<bar>" and hi: "\<bar>c * p\<bar> \<le> A + T"
    unfolding A_def by linarith+
  from lo c(1) have r1: "2 powi (- 1022) \<le> \<bar>c * p\<bar>" unfolding A_def two by linarith
  from hi TA c(2) have r2: "\<bar>c * p\<bar> < 2 powi 1023" unfolding A_def two by linarith
  from b64_error [OF r1 r2] obtain r where r: "b64 (c * p) = Num r"
    and re: "\<bar>r - c * p\<bar> \<le> eps * \<bar>c * p\<bar>"
    unfolding eps_def by blast
  have "eps * \<bar>c * p\<bar> \<le> eps * (A + T)" using hi eps(1) by (simp add: mult_left_mono)
  also have "\<dots> = T + eps * T" by (simp add: T_def algebra_simps)
  also have "\<dots> \<le> T + T"
  proof -
    have "eps * T \<le> 1 * T" using eps(2) T0 by (intro mult_right_mono) simp_all
    then show ?thesis by simp
  qed
  finally have d2: "\<bar>r - c * p\<bar> \<le> 2 * T" using re by linarith
  from d1 d2 T0 have "\<bar>r - c * k\<bar> \<le> 4 * T" by linarith
  also have "4 * T = 2 powi (- 51) * \<bar>c * k\<bar>"
    using eps(3) by (simp add: T_def A_def)
  finally have "\<bar>r - c * k\<bar> \<le> 2 powi (- 51) * \<bar>c * k\<bar>" .
  moreover have "rnd (f_mul (Num c) (b64 k)) = Num r" by (simp add: p r)
  ultimately show ?thesis by blast
qed

text \<open>165 kcal per 100 g and a quantity of 70 g, in binary64.\<close>

lemma chicken_70_calories:
  "rnd (f_mul (Num 165) (b64 (70 / 100))) = Num (8127589952520191 / 70368744177664)"
  by code_simp

lemma formula_70: "rnd (f_div (rnd (f_mul (Num 165) (Num 70))) (Num 100)) = Num (1155 / 10)"
  by code_simp

text \<open>
  Claim C1, as the code has it. For a food whose base amount is a positive number \<open>b\<close>
  and a quantity \<open>q > 0\<close>, \<^verbatim>\<open>compute_nutrients\<close> returns each of the four nutrient fields
  multiplied by the factor \<open>q / b\<close>: the factor is computed first, each of the two
  operations is rounded to binary64, and nothing else is rounded. The result is not in
  general the value of field times \<open>q\<close> divided by \<open>b\<close>; it is within the relative error
  \<open>2 ^ -51\<close> of it when the factor lies between \<open>2 ^ -1022\<close> and \<open>2 ^ 1023\<close> and the
  exact product between \<open>2 ^ -1021\<close> and \<open>2 ^ 1022\<close> in absolute value.
\<close>

theorem compute_nutrients_b64_scales:
  assumes "base_amount f = Num b" and "0 < b" and "0 < q"
  shows "compute_nutrients_b64 f (Num q) =
           Inr \<lparr>calories = rnd (f_mul (calories f) (b64 (q / b))),
                protein_g = rnd (f_mul (protein_g f) (b64 (q / b))),
                fat_g = rnd (f_mul (fat_g f) (b64 (q / b))),
                sat_fat_g = rnd (f_mul (sat_fat_g f) (b64 (q / b)))\<rparr>
       \<and> (\<forall>c. 2 powi (- 1022) \<le> q / b \<and> q / b < 2 powi 1023
              \<and> 2 powi (- 1021) \<le> \<bar>c * q / b\<bar> \<and> \<bar>c * q / b\<bar> < 2 powi 1022 \<longrightarrow>
            (\<exists>r. rnd (f_mul (Num c) (b64 (q / b))) = Num r
                 \<and> \<bar>r - c * q / b\<bar> \<le> 2 powi (- 51) * \<bar>c * q / b\<bar>))"
proof (intro conjI allI impI)
  from assms(2) have "b \<noteq> 0" by simp
  with assms(1) show "compute_nutrients_b64 f (Num q) =
           Inr \<lparr>calories = rnd (f_mul (calories f) (b64 (q / b))),
                protein_g = rnd (f_mul (protein_g f) (b64 (q / b))),
                fat_g = rnd (f_mul (fat_g f) (b64 (q / b))),
                sat_fat_g = rnd (f_mul (sat_fat_g f) (b64 (q / b)))\<rparr>"
    by (rule compute_nutrients_b64_returns)
next
  fix c
  assume "2 powi (- 1022) \<le> q / b \<and> q / b < 2 powi 1023
              \<and> 2 powi (- 1021) \<le> \<bar>c * q / b\<bar> \<and> \<bar>c * q / b\<bar> < 2 powi 1022"
  then have "2 powi (- 1022) \<le> q / b" "q / b < 2 powi 1023"
    "2 powi (- 1021) \<le> \<bar>c * (q / b)\<bar>" "\<bar>c * (q / b)\<bar> < 2 powi 1022"
    by simp_all
  from scaled_error [OF this]
  show "\<exists>r. rnd (f_mul (Num c) (b64 (q / b))) = Num r
                 \<and> \<bar>r - c * q / b\<bar> \<le> 2 powi (- 51) * \<bar>c * q / b\<bar>"
    by simp
qed

text \<open>
  70 g of chicken breast: the calories are 115.5 less \<open>2 ^ -46\<close>, within the bound.
\<close>

theorem compute_nutrients_b64_scales_witness:
  "base_amount chicken_breast = Num 100 \<and> (0::real) < 100 \<and> (0::real) < 70
   \<and> (2 powi (- 1022) \<le> (70::real) / 100 \<and> (70::real) / 100 < 2 powi 1023
      \<and> 2 powi (- 1021) \<le> \<bar>165 * 70 / (100::real)\<bar> \<and> \<bar>165 * 70 / (100::real)\<bar> < 2 powi 1022)
   \<and> rnd (f_mul (Num 165) (b64 (70 / 100))) = Num (8127589952520191 / 70368744177664)
   \<and> \<bar>8127589952520191 / 70368744177664 - 165 * 70 / (100::real)\<bar>
        \<le> 2 powi (- 51) * \<bar>165 * 70 / (100::real)\<bar>"
proof -
  have b: "base_amount chicken_breast = Num 100" by (simp add: chicken_breast_def)
  have "(2::real) powi (- 1022) \<le> 2 powi (- 1)" and "(2::real) powi (- 1021) \<le> 2 powi (- 1)"
    and "(2::real) powi 7 \<le> 2 powi 1023" and "(2::real) powi 7 \<le> 2 powi 1022"
    by (intro power_int_increasing, simp, simp)+
  then have range: "2 powi (- 1022) \<le> (70::real) / 100 \<and> (70::real) / 100 < 2 powi 1023
      \<and> 2 powi (- 1021) \<le> \<bar>165 * 70 / (100::real)\<bar> \<and> \<bar>165 * 70 / (100::real)\<bar> < 2 powi 1022"
    by simp
  from compute_nutrients_b64_scales [OF b, of 70] range
  obtain r where r: "rnd (f_mul (Num 165) (b64 (70 / 100))) = Num r"
    and err: "\<bar>r - 165 * 70 / 100\<bar> \<le> 2 powi (- 51) * \<bar>165 * 70 / (100::real)\<bar>"
    by (metis zero_less_numeral)
  from r have "r = 8127589952520191 / 70368744177664" by (simp only: chicken_70_calories float64.inject)
  with err have "\<bar>8127589952520191 / 70368744177664 - 165 * 70 / (100::real)\<bar>
        \<le> 2 powi (- 51) * \<bar>165 * 70 / (100::real)\<bar>"
    by simp
  with b range chicken_70_calories show ?thesis by simp
qed

text \<open>
  The same input: the scaler returns 115.5 less \<open>2 ^ -46\<close> for the calories (Python
  prints 115.49999999999999), and 165 times 70 divided by 100 is 115.5, in binary64 as
  in exact arithmetic.
\<close>

theorem scaled_calories_counterexample:
  "compute_nutrients_b64 chicken_breast (Num 70) =
     Inr \<lparr>calories = Num (8127589952520191 / 70368744177664),
          protein_g = rnd (f_mul (protein_g chicken_breast) (b64 (70 / 100))),
          fat_g = rnd (f_mul (fat_g chicken_breast) (b64 (70 / 100))),
          sat_fat_g = rnd (f_mul (sat_fat_g chicken_breast) (b64 (70 / 100)))\<rparr>
   \<and> rnd (f_div (rnd (f_mul (Num 165) (Num 70))) (Num 100)) = Num (1155 / 10)
   \<and> (8127589952520191 / 70368744177664 :: real) \<noteq> 1155 / 10"
proof -
  have "compute_nutrients_b64 chicken_breast (Num 70) =
     Inr \<lparr>calories = rnd (f_mul (calories chicken_breast) (b64 (70 / 100))),
          protein_g = rnd (f_mul (protein_g chicken_breast) (b64 (70 / 100))),
          fat_g = rnd (f_mul (fat_g chicken_breast) (b64 (70 / 100))),
          sat_fat_g = rnd (f_mul (sat_fat_g chicken_breast) (b64 (70 / 100)))\<rparr>"
    by (rule compute_nutrients_b64_returns) (simp_all add: chicken_breast_def)
  moreover have "calories chicken_breast = Num 165" by (simp add: chicken_breast_def)
  ultimately have "compute_nutrients_b64 chicken_breast (Num 70) =
     Inr \<lparr>calories = Num (8127589952520191 / 70368744177664),
          protein_g = rnd (f_mul (protein_g chicken_breast) (b64 (70 / 100))),
          fat_g = rnd (f_mul (fat_g chicken_breast) (b64 (70 / 100))),
          sat_fat_g = rnd (f_mul (sat_fat_g chicken_breast) (b64 (70 / 100)))\<rparr>"
    by (simp only: chicken_70_calories)
  moreover have "(8127589952520191 / 70368744177664 :: real) \<noteq> 1155 / 10" by simp
  ultimately show ?thesis using formula_70 by blast
qed

text \<open>
  Claim C6, as the code has it. The scaler has no check of the quantity: for a quantity
  \<open>q \<le> 0\<close> and a positive base amount \<open>b\<close> it raises nothing and returns the four
  fields multiplied by the factor \<open>q / b\<close>, which is not positive. Quantities below 1
  are kept out by the quantity widget of the page, before the scaler is called.
\<close>

theorem compute_nutrients_nonpositive:
  assumes "q \<le> 0" and "base_amount f = Num b" and "0 < b"
  shows "compute_nutrients f (Num q) =
           Inr \<lparr>calories = f_mul (calories f) (Num (q / b)),
                protein_g = f_mul (protein_g f) (Num (q / b)),
                fat_g = f_mul (fat_g f) (Num (q / b)),
                sat_fat_g = f_mul (sat_fat_g f) (Num (q / b))\<rparr>
       \<and> q / b \<le> 0
       \<and> compute_nutrients f (Num q) \<noteq> Inl InvalidQuantityError"
  using assms by (simp add: compute_nutrients_returns divide_le_0_iff)

text \<open>A quantity of 0 of chicken breast gives the zero vector.\<close>

theorem compute_nutrients_nonpositive_witness:
  "(0::real) \<le> 0 \<and> base_amount chicken_breast = Num 100 \<and> (0::real) < 100
   \<and> compute_nutrients chicken_breast (Num 0) =
       Inr \<lparr>calories = Num 0, protein_g = Num 0, fat_g = Num 0, sat_fat_g = Num 0\<rparr>"
proof -
  have b: "base_amount chicken_breast = Num 100" by (simp add: chicken_breast_def)
  from compute_nutrients_nonpositive [OF _ b, of 0] show ?thesis
    by (simp add: chicken_breast_def)
qed

text \<open>A quantity of -50 of rolled oats: a negative vector is returned, not a failure.\<close>

theorem negative_quantity_counterexample:
  "compute_nutrients rolled_oats (Num (- 50)) =
     Inr \<lparr>calories = Num (- (1895 / 10)), protein_g = Num (- (65 / 10)),
          fat_g = Num (- (35 / 10)), sat_fat_g = Num (- (6 / 10))\<rparr>
   \<and> compute_nutrients rolled_oats (Num (- 50)) \<noteq> Inl InvalidQuantityError"
  by (simp add: compute_nutrients_def rolled_oats_def)

text \<open>
  Claim C10, as the code has it. The division by the base amount is unguarded. For a
  food whose base amount is 0 and every quantity \<open>q\<close>, the scaler raises nothing and no
  field it returns is finite. When \<open>q\<close> is neither 0 nor NaN, a field that is zero (or
  NaN) becomes NaN and every other field becomes an infinity; when \<open>q\<close> is 0 (or NaN)
  the factor is NaN and all four fields become NaN, the nonzero ones too.
\<close>

theorem compute_nutrients_zero_base:
  assumes "base_amount f = Num 0"
  shows "compute_nutrients f q =
           Inr \<lparr>calories = f_mul (calories f) (f_div q (Num 0)),
                protein_g = f_mul (protein_g f) (f_div q (Num 0)),
                fat_g = f_mul (fat_g f) (f_div q (Num 0)),
                sat_fat_g = f_mul (sat_fat_g f) (f_div q (Num 0))\<rparr>
       \<and> (\<forall>x. \<not> is_finite (f_mul x (f_div q (Num 0))))
       \<and> (q \<noteq> Num 0 \<and> q \<noteq> NaN \<longrightarrow>
            (\<forall>x. if x = Num 0 \<or> x = NaN then f_mul x (f_div q (Num 0)) = NaN
                 else is_inf (f_mul x (f_div q (Num 0)))))
       \<and> (q = Num 0 \<or> q = NaN \<longrightarrow> (\<forall>x. f_mul x (f_div q (Num 0)) = NaN))"
proof (intro conjI impI allI)
  show "compute_nutrients f q =
           Inr \<lparr>calories = f_mul (calories f) (f_div q (Num 0)),
                protein_g = f_mul (protein_g f) (f_div q (Num 0)),
                fat_g = f_mul (fat_g f) (f_div q (Num 0)),
                sat_fat_g = f_mul (sat_fat_g f) (f_div q (Num 0))\<rparr>"
    using assms by (simp add: compute_nutrients_returns)
next
  fix x show "\<not> is_finite (f_mul x (f_div q (Num 0)))" by (rule f_div_zero_not_finite)
next
  fix x assume "q \<noteq> Num 0 \<and> q \<noteq> NaN"
  then have "is_inf (f_div q (Num 0))" by (simp add: f_div_zero_inf)
  then show "if x = Num 0 \<or> x = NaN then f_mul x (f_div q (Num 0)) = NaN
                 else is_inf (f_mul x (f_div q (Num 0)))"
    by (rule f_mul_inf)
next
  fix x assume "q = Num 0 \<or> q = NaN"
  then have "f_div q (Num 0) = NaN" by (simp add: f_div_zero_NaN)
  then show "f_mul x (f_div q (Num 0)) = NaN" by (simp add: f_mul_NaN_right)
qed

text \<open>
  Rolled oats with base amount 0: a quantity of 50 gives four infinities; a zero field
  would be NaN; a NaN quantity gives NaN.
\<close>

theorem compute_nutrients_zero_base_witness:
  "base_amount zero_base_oats = Num 0
   \<and> (Num 50 \<noteq> Num 0 \<and> Num 50 \<noteq> NaN)
   \<and> compute_nutrients zero_base_oats (Num 50) =
       Inr \<lparr>calories = PosInf, protein_g = PosInf, fat_g = PosInf, sat_fat_g = PosInf\<rparr>
   \<and> f_mul (Num 0) (f_div (Num 50) (Num 0)) = NaN
   \<and> is_inf (f_mul (calories zero_base_oats) (f_div (Num 50) (Num 0)))
   \<and> f_mul (calories zero_base_oats) (f_div NaN (Num 0)) = NaN"
proof -
  have b: "base_amount zero_base_oats = Num 0"
    by (simp add: zero_base_oats_def)
  note at50 = compute_nutrients_zero_base [OF b, of "Num 50"]
  note atNaN = compute_nutrients_zero_base [OF b, of NaN]
  have q: "Num 50 \<noteq> Num 0 \<and> Num 50 \<noteq> NaN" by simp
  from at50 q have cells: "\<forall>x. if x = Num 0 \<or> x = NaN then f_mul x (f_div (Num 50) (Num 0)) = NaN
                 else is_inf (f_mul x (f_div (Num 50) (Num 0)))"
    by blast
  from cells [rule_format, of "Num 0"] have zero: "f_mul (Num 0) (f_div (Num 50) (Num 0)) = NaN"
    by simp
  from cells [rule_format, of "calories zero_base_oats"]
  have inf: "is_inf (f_mul (calories zero_base_oats) (f_div (Num 50) (Num 0)))"
    by (simp add: zero_base_oats_def rolled_oats_def)
  from atNaN have nan: "f_mul (calories zero_base_oats) (f_div NaN (Num 0)) = NaN"
    by blast
  from at50 have ret: "compute_nutrients zero_base_oats (Num 50) =
       Inr \<lparr>calories = PosInf, protein_g = PosInf, fat_g = PosInf, sat_fat_g = PosInf\<rparr>"
    by (simp add: zero_base_oats_def rolled_oats_def)
  from b q ret zero inf nan show ?thesis by blast
qed

text \<open>
  Base amount 0 and quantity 0: the calories field is 379, not zero, and the result is
  NaN, not an infinity.
\<close>

theorem zero_quantity_zero_base_counterexample:
  "base_amount zero_base_oats = Num 0
   \<and> calories zero_base_oats = Num 379
   \<and> compute_nutrients zero_base_oats (Num 0) =
       Inr \<lparr>calories = NaN, protein_g = NaN, fat_g = NaN, sat_fat_g = NaN\<rparr>"
  by (simp add: compute_nutrients_def zero_base_oats_def rolled_oats_def)

section \<open>Goal progress\<close>

text \<open>
  Claim C4. For a total \<open>t \<ge> 0\<close> and a goal \<open>g > 0\<close>, the value handed to the progress
  bar is exactly \<open>min 1 (t / g)\<close>, which is the ratio \<open>t / g\<close> clamped to the closed
  interval from 0 to 1. The three bars (calories, protein, saturated fat) use the same
  expression; the sidebar widgets give goals of at least 500, 20 and 5.
\<close>

theorem progress_clamped:
  assumes "0 \<le> t" and "0 < g"
  shows "progress (Num t) g = Num (min 1 (t / of_int g))
       \<and> progress (Num t) g = Num (max 0 (min 1 (t / of_int g)))"
  using assms by (auto simp: progress_def py_min_def min_def max_def)

text \<open>189.5 kcal against 1800 is 379/3600; 2000 kcal against 1800 is shown as 1.\<close>

theorem progress_clamped_witness:
  "(0::real) \<le> 1895 / 10 \<and> (0::int) < 1800
   \<and> progress (Num (1895 / 10)) 1800 = Num (379 / 3600)
   \<and> progress (Num 2000) 1800 = Num 1"
  using progress_clamped [of "1895 / 10" 1800] progress_clamped [of 2000 1800]
  by simp

section \<open>Daily totals\<close>

lemma daily_totals:
  "calories (snd (daily_summary log_df k)) = pd_sum (map calories (fst (daily_summary log_df k)))"
  "protein_g (snd (daily_summary log_df k)) = pd_sum (map protein_g (fst (daily_summary log_df k)))"
  "fat_g (snd (daily_summary log_df k)) = pd_sum (map fat_g (fst (daily_summary log_df k)))"
  "sat_fat_g (snd (daily_summary log_df k)) = pd_sum (map sat_fat_g (fst (daily_summary log_df k)))"
  by (simp_all add: daily_summary_def Let_def)

text \<open>
  Claim C3. When no row of the log is dated \<^verbatim>\<open>day\<close>, \<^verbatim>\<open>daily_summary\<close> returns no row
  and totals that are zero in all four nutrient fields; the function has no failing
  path. The hypothesis asks only that no row carries the timestamp the function
  compares with (midnight of \<^verbatim>\<open>day\<close>), which holds in particular when no row falls on
  that calendar day.
\<close>

theorem daily_summary_no_entries:
  assumes "\<forall>r \<in> set log_df. date r \<noteq> to_datetime day"
  shows "daily_summary log_df day =
           ([], \<lparr>calories = Num 0, protein_g = Num 0, fat_g = Num 0, sat_fat_g = Num 0\<rparr>)"
proof -
  from assms have "filter (\<lambda>r. date r = to_datetime day) log_df = []"
    by (simp add: filter_empty_conv)
  then show ?thesis by (simp add: daily_summary_def pd_sum_Nil)
qed

text \<open>Nothing in the sample log is dated 2024-01-02.\<close>

theorem daily_summary_no_entries_witness:
  "list_all (\<lambda>r. date r \<noteq> to_datetime 19724) sample_log
   \<and> daily_summary sample_log 19724 =
       ([], \<lparr>calories = Num 0, protein_g = Num 0, fat_g = Num 0, sat_fat_g = Num 0\<rparr>)"
proof -
  have none: "\<forall>r \<in> set sample_log. date r \<noteq> to_datetime 19724"
    by (simp add: sample_defs date_defs)
  from none daily_summary_no_entries [OF none] show ?thesis
    by (simp add: list_all_iff)
qed

section \<open>The weekly rollup\<close>

lemma weekly_summary_empty: "weekly_summary [] d = Inl AttributeError"
  by (simp add: weekly_summary_def)

lemma weekly_summary_rows:
  assumes "log_df \<noteq> []"
  shows "weekly_summary log_df d =
     Inr (filter (\<lambda>r. to_datetime (d - 6) \<le> date r \<and> date r \<le> to_datetime d) log_df,
          groupby_date_sum
            (filter (\<lambda>r. to_datetime (d - 6) \<le> date r \<and> date r \<le> to_datetime d) log_df))"
  using assms by (simp add: weekly_summary_def Let_def to_datetime_minus)

lemma groupby_dates:
  "map bd_date (groupby_date_sum week) =
     sorted_list_of_set ((\<lambda>r. dt_date (date r)) ` set week)"
proof -
  have "map bd_date (groupby_date_sum week) = sort (remdups (map (\<lambda>r. dt_date (date r)) week))"
    by (simp add: groupby_date_sum_def Let_def comp_def)
  also have "\<dots> = sorted_list_of_set (set (map (\<lambda>r. dt_date (date r)) week))"
    by (simp only: sorted_list_of_set_sort_remdups)
  finally show ?thesis by simp
qed

lemma set_groupby_dates:
  "set (map bd_date (groupby_date_sum week)) = (\<lambda>r. dt_date (date r)) ` set week"
  by (simp only: groupby_dates) simp

lemma groupby_rows:
  assumes "row \<in> set (groupby_date_sum week)"
  shows "bd_calories row = pd_sum (map calories (filter (\<lambda>r. dt_date (date r) = bd_date row) week))"
    and "bd_protein_g row = pd_sum (map protein_g (filter (\<lambda>r. dt_date (date r) = bd_date row) week))"
    and "bd_sat_fat_g row = pd_sum (map sat_fat_g (filter (\<lambda>r. dt_date (date r) = bd_date row) week))"
  using assms by (auto simp: groupby_date_sum_def Let_def)

text \<open>On rows stamped at midnight the window is the seven calendar days.\<close>

lemma midnight_window:
  assumes "\<forall>x \<in> set log_df. date x = to_datetime (dt_date (date x))"
  shows "filter (\<lambda>r. to_datetime (d - 6) \<le> date r \<and> date r \<le> to_datetime d) log_df =
         filter (\<lambda>r. d - 6 \<le> dt_date (date r) \<and> dt_date (date r) \<le> d) log_df"
proof (rule filter_cong [OF refl])
  fix x assume "x \<in> set log_df"
  with assms have "date x = to_datetime (dt_date (date x))" by simp
  then have "(to_datetime (d - 6) \<le> date x \<and> date x \<le> to_datetime d) =
             (to_datetime (d - 6) \<le> to_datetime (dt_date (date x))
              \<and> to_datetime (dt_date (date x)) \<le> to_datetime d)"
    by simp
  then show "(to_datetime (d - 6) \<le> date x \<and> date x \<le> to_datetime d) =
             (d - 6 \<le> dt_date (date x) \<and> dt_date (date x) \<le> d)"
    by (simp only: to_datetime_le)
qed

lemma sample_week:
  "weekly_summary sample_log 19726 =
     Inr ([oats_jan1, chicken_jan1, oats_jan3],
          [\<lparr>bd_date = 19723, bd_calories = Num (5195 / 10), bd_protein_g = Num (685 / 10),
            bd_sat_fat_g = Num (26 / 10)\<rparr>,
           \<lparr>bd_date = 19725, bd_calories = Num 379, bd_protein_g = Num 13,
            bd_sat_fat_g = Num (12 / 10)\<rparr>])"
  by (simp add: weekly_summary_def sample_defs date_defs groupby_date_sum_def pd_sum_def Let_def)

lemma sample_next_week:
  "weekly_summary sample_log 19727 =
     Inr ([oats_jan1, chicken_jan1, oats_jan3, oats_jan4_8am],
          [\<lparr>bd_date = 19723, bd_calories = Num (5195 / 10), bd_protein_g = Num (685 / 10),
            bd_sat_fat_g = Num (26 / 10)\<rparr>,
           \<lparr>bd_date = 19725, bd_calories = Num 379, bd_protein_g = Num 13,
            bd_sat_fat_g = Num (12 / 10)\<rparr>,
           \<lparr>bd_date = 19726, bd_calories = Num (1895 / 10), bd_protein_g = Num (65 / 10),
            bd_sat_fat_g = Num (6 / 10)\<rparr>])"
  by (simp add: weekly_summary_def sample_defs date_defs groupby_date_sum_def pd_sum_def Let_def)

lemma written_week:
  "weekly_summary written_log 19726 =
     Inr ([oats_jan1, chicken_jan1, oats_jan3],
          [\<lparr>bd_date = 19723, bd_calories = Num (5195 / 10), bd_protein_g = Num (685 / 10),
            bd_sat_fat_g = Num (26 / 10)\<rparr>,
           \<lparr>bd_date = 19725, bd_calories = Num 379, bd_protein_g = Num 13,
            bd_sat_fat_g = Num (12 / 10)\<rparr>])"
  by (simp add: weekly_summary_def sample_defs date_defs groupby_date_sum_def pd_sum_def Let_def)

lemma written_midnight: "\<forall>x \<in> set written_log. date x = to_datetime (dt_date (date x))"
  by (simp add: sample_defs date_defs)

text \<open>
  Claim C2, as the code has it. On every log that has a row and for every reference
  day \<open>d\<close>, \<^verbatim>\<open>weekly_summary\<close> returns, and keeps exactly the rows whose stored timestamp
  lies between midnight of \<open>d - 6\<close> and midnight of \<open>d\<close>, both included: the rows of the
  six calendar days before \<open>d\<close> at any time of day, and of day \<open>d\<close> those stamped at
  midnight only. On a log whose rows are all stamped at midnight these are the rows of
  the seven calendar days from \<open>d - 6\<close> to \<open>d\<close>. The rollup has one row for each
  calendar day that occurs among the kept rows and no other row, in strictly ascending
  order of the day, and each row holds the sums of calories, protein and saturated fat
  over the kept rows of its day.
\<close>

theorem weekly_summary_rollup:
  assumes "log_df \<noteq> []"
  shows "\<exists>week by_day.
          weekly_summary log_df d = Inr (week, by_day)
        \<and> week = filter (\<lambda>r. to_datetime (d - 6) \<le> date r \<and> date r \<le> to_datetime d) log_df
        \<and> week =
            filter (\<lambda>r. (d - 6 \<le> dt_date (date r) \<and> dt_date (date r) < d) \<or> date r = to_datetime d)
              log_df
        \<and> ((\<forall>r \<in> set log_df. date r = to_datetime (dt_date (date r))) \<longrightarrow>
            week = filter (\<lambda>r. d - 6 \<le> dt_date (date r) \<and> dt_date (date r) \<le> d) log_df)
        \<and> map bd_date by_day = sorted_list_of_set ((\<lambda>r. dt_date (date r)) ` set week)
        \<and> sorted_wrt (<) (map bd_date by_day)
        \<and> (\<forall>row \<in> set by_day.
              bd_calories row =
                pd_sum (map calories (filter (\<lambda>r. dt_date (date r) = bd_date row) week))
            \<and> bd_protein_g row =
                pd_sum (map protein_g (filter (\<lambda>r. dt_date (date r) = bd_date row) week))
            \<and> bd_sat_fat_g row =
                pd_sum (map sat_fat_g (filter (\<lambda>r. dt_date (date r) = bd_date row) week)))"
proof -
  define week where
    "week = filter (\<lambda>r. to_datetime (d - 6) \<le> date r \<and> date r \<le> to_datetime d) log_df"
  define by_day where "by_day = groupby_date_sum week"
  have ret: "weekly_summary log_df d = Inr (week, by_day)"
    using assms by (simp add: weekly_summary_rows week_def by_day_def)
  have window: "week =
     filter (\<lambda>r. to_datetime (d - 6) \<le> date r \<and> date r \<le> to_datetime d) log_df"
    by (rule week_def)
  have by_days: "week =
     filter (\<lambda>r. (d - 6 \<le> dt_date (date r) \<and> dt_date (date r) < d) \<or> date r = to_datetime d)
       log_df"
    by (simp only: week_def window_by_day)
  have midnight: "week = filter (\<lambda>r. d - 6 \<le> dt_date (date r) \<and> dt_date (date r) \<le> d) log_df"
    if "\<forall>r \<in> set log_df. date r = to_datetime (dt_date (date r))"
    using that by (simp only: week_def midnight_window)
  have days: "map bd_date by_day = sorted_list_of_set ((\<lambda>r. dt_date (date r)) ` set week)"
    by (simp only: by_day_def groupby_dates)
  have asc: "sorted_wrt (<) (map bd_date by_day)"
    by (simp only: days strict_sorted_list_of_set)
  have sums: "bd_calories row =
           pd_sum (map calories (filter (\<lambda>r. dt_date (date r) = bd_date row) week))
       \<and> bd_protein_g row =
           pd_sum (map protein_g (filter (\<lambda>r. dt_date (date r) = bd_date row) week))
       \<and> bd_sat_fat_g row =
           pd_sum (map sat_fat_g (filter (\<lambda>r. dt_date (date r) = bd_date row) week))"
    if "row \<in> set by_day" for row
  proof -
    from that have "row \<in> set (groupby_date_sum week)"
      by (simp only: by_day_def)
    then show ?thesis by (simp only: groupby_rows)
  qed
  from ret window by_days midnight days asc sums show ?thesis by blast
qed

text \<open>
  The week ending on 2024-01-04 in the sample log: the three midnight rows are kept,
  the days are 2024-01-01 and 2024-01-03, and the first day holds 189.5 + 330 kcal. On
  the three midnight rows alone the window is the seven calendar days.
\<close>

theorem weekly_summary_rollup_witness:
  "sample_log \<noteq> []
   \<and> weekly_summary sample_log 19726 =
       Inr ([oats_jan1, chicken_jan1, oats_jan3],
            [\<lparr>bd_date = 19723, bd_calories = Num (5195 / 10), bd_protein_g = Num (685 / 10),
              bd_sat_fat_g = Num (26 / 10)\<rparr>,
             \<lparr>bd_date = 19725, bd_calories = Num 379, bd_protein_g = Num 13,
              bd_sat_fat_g = Num (12 / 10)\<rparr>])
   \<and> filter (\<lambda>r. to_datetime (19726 - 6) \<le> date r \<and> date r \<le> to_datetime 19726) sample_log =
       [oats_jan1, chicken_jan1, oats_jan3]
   \<and> sorted_list_of_set ((\<lambda>r. dt_date (date r)) ` set [oats_jan1, chicken_jan1, oats_jan3]) =
       [19723, 19725]
   \<and> pd_sum (map calories
       (filter (\<lambda>r. dt_date (date r) = 19723) [oats_jan1, chicken_jan1, oats_jan3])) =
       Num (5195 / 10)
   \<and> list_all (\<lambda>r. date r = to_datetime (dt_date (date r))) written_log
   \<and> filter (\<lambda>r. 19726 - 6 \<le> dt_date (date r) \<and> dt_date (date r) \<le> 19726) written_log =
       [oats_jan1, chicken_jan1, oats_jan3]"
proof -
  have nonempty: "sample_log \<noteq> []" by (simp add: sample_log_def)
  from weekly_summary_rollup [OF nonempty, of 19726]
  obtain week by_day where ret: "weekly_summary sample_log 19726 = Inr (week, by_day)"
    and window: "week =
      filter (\<lambda>r. to_datetime (19726 - 6) \<le> date r \<and> date r \<le> to_datetime 19726) sample_log"
    and days: "map bd_date by_day = sorted_list_of_set ((\<lambda>r. dt_date (date r)) ` set week)"
    and sums: "\<forall>row \<in> set by_day.
      bd_calories row = pd_sum (map calories (filter (\<lambda>r. dt_date (date r) = bd_date row) week))"
    by blast
  from ret have week: "week = [oats_jan1, chicken_jan1, oats_jan3]"
    and by_day: "by_day =
      [\<lparr>bd_date = 19723, bd_calories = Num (5195 / 10), bd_protein_g = Num (685 / 10),
        bd_sat_fat_g = Num (26 / 10)\<rparr>,
       \<lparr>bd_date = 19725, bd_calories = Num 379, bd_protein_g = Num 13,
        bd_sat_fat_g = Num (12 / 10)\<rparr>]"
    by (simp_all add: sample_week)
  from ret have returned: "weekly_summary sample_log 19726 =
       Inr ([oats_jan1, chicken_jan1, oats_jan3],
            [\<lparr>bd_date = 19723, bd_calories = Num (5195 / 10), bd_protein_g = Num (685 / 10),
              bd_sat_fat_g = Num (26 / 10)\<rparr>,
             \<lparr>bd_date = 19725, bd_calories = Num 379, bd_protein_g = Num 13,
              bd_sat_fat_g = Num (12 / 10)\<rparr>])"
    by (simp only: week by_day)
  from window have kept:
    "filter (\<lambda>r. to_datetime (19726 - 6) \<le> date r \<and> date r \<le> to_datetime 19726) sample_log =
       [oats_jan1, chicken_jan1, oats_jan3]"
    by (simp only: week)
  from days have dates:
    "sorted_list_of_set ((\<lambda>r. dt_date (date r)) ` set [oats_jan1, chicken_jan1, oats_jan3]) =
       [19723, 19725]"
    by (simp add: week by_day)
  have "\<lparr>bd_date = 19723, bd_calories = Num (5195 / 10), bd_protein_g = Num (685 / 10),
          bd_sat_fat_g = Num (26 / 10)\<rparr> \<in> set by_day"
    by (simp only: by_day list.set insertI1)
  with sums have "bd_calories \<lparr>bd_date = 19723, bd_calories = Num (5195 / 10),
          bd_protein_g = Num (685 / 10), bd_sat_fat_g = Num (26 / 10)\<rparr> =
      pd_sum (map calories (filter (\<lambda>r. dt_date (date r) =
        bd_date \<lparr>bd_date = 19723, bd_calories = Num (5195 / 10),
          bd_protein_g = Num (685 / 10), bd_sat_fat_g = Num (26 / 10)\<rparr>) week))"
    by (rule bspec)
  then have total: "pd_sum (map calories
       (filter (\<lambda>r. dt_date (date r) = 19723) [oats_jan1, chicken_jan1, oats_jan3])) =
       Num (5195 / 10)"
    by (simp only: week day_row.select_convs)
  have written: "written_log \<noteq> []" by (simp add: written_log_def)
  from weekly_summary_rollup [OF written, of 19726] written_midnight
  obtain week' by_day' where ret': "weekly_summary written_log 19726 = Inr (week', by_day')"
    and cal: "week' =
      filter (\<lambda>r. 19726 - 6 \<le> dt_date (date r) \<and> dt_date (date r) \<le> 19726) written_log"
    by blast
  from ret' have "week' = [oats_jan1, chicken_jan1, oats_jan3]"
    by (simp add: written_week)
  with cal have seven:
    "filter (\<lambda>r. 19726 - 6 \<le> dt_date (date r) \<and> dt_date (date r) \<le> 19726) written_log =
       [oats_jan1, chicken_jan1, oats_jan3]"
    by simp
  from written_midnight
  have mid: "list_all (\<lambda>r. date r = to_datetime (dt_date (date r))) written_log"
    by (simp only: list_all_iff)
  from nonempty returned kept dates total mid seven show ?thesis by blast
qed

text \<open>
  On the table with no row, the header-only log that \<^verbatim>\<open>load_log\<close> creates, the function
  raises. On a log of a midnight row of 2024-01-03 and the row stamped 2024-01-04 08:00,
  with the reference day 2024-01-04: the second row falls on a day of the window and is
  not kept.
\<close>

theorem weekly_window_counterexample:
  "weekly_summary [] 19726 = Inl AttributeError
   \<and> dt_date (date oats_jan4_8am) = 19726
   \<and> oats_jan4_8am \<noteq> oats_jan3
   \<and> weekly_summary [oats_jan3, oats_jan4_8am] 19726 =
       Inr ([oats_jan3],
            [\<lparr>bd_date = 19725, bd_calories = Num 379, bd_protein_g = Num 13,
              bd_sat_fat_g = Num (12 / 10)\<rparr>])"
  by (simp add: weekly_summary_def groupby_date_sum_def pd_sum_def Let_def oats_jan3_def
      oats_jan4_8am_def date_defs)

section \<open>Rows with a time of day\<close>

lemma in_week_time_of_day:
  assumes "dt_date ts = d" and "ts \<noteq> to_datetime d"
  shows "to_datetime (e - 6) \<le> ts \<and> ts \<le> to_datetime e \<longleftrightarrow> d < e \<and> e \<le> d + 6"
proof -
  from assms have lo: "to_datetime d < ts" and hi: "ts < to_datetime (d + 1)"
    by (auto simp: dt_date_bounds)
  show ?thesis
  proof
    assume w: "to_datetime (e - 6) \<le> ts \<and> ts \<le> to_datetime e"
    with lo have "to_datetime d < to_datetime e" by linarith
    moreover from w hi have "to_datetime (e - 6) < to_datetime (d + 1)" by linarith
    ultimately show "d < e \<and> e \<le> d + 6" by (simp add: to_datetime_less)
  next
    assume "d < e \<and> e \<le> d + 6"
    then have "to_datetime (d + 1) \<le> to_datetime e" and "to_datetime (e - 6) \<le> to_datetime d"
      by (simp_all add: to_datetime_le)
    with lo hi show "to_datetime (e - 6) \<le> ts \<and> ts \<le> to_datetime e" by linarith
  qed
qed

text \<open>
  On a log stamped at midnight, the rows of a day of the rollup are the rows that
  \<^verbatim>\<open>daily_summary\<close> selects for that day.
\<close>

lemma midnight_group:
  assumes mid: "\<forall>x \<in> set log_df. date x = to_datetime (dt_date (date x))"
    and k: "k \<in> (\<lambda>r. dt_date (date r)) `
              set (filter (\<lambda>r. to_datetime (e - 6) \<le> date r \<and> date r \<le> to_datetime e) log_df)"
  shows "filter (\<lambda>r. dt_date (date r) = k)
           (filter (\<lambda>r. to_datetime (e - 6) \<le> date r \<and> date r \<le> to_datetime e) log_df) =
         fst (daily_summary log_df k)"
proof -
  from k obtain y where y: "y \<in> set log_df" "to_datetime (e - 6) \<le> date y"
      "date y \<le> to_datetime e" "dt_date (date y) = k"
    by auto
  with mid have yk: "date y = to_datetime k" by auto
  have "filter (\<lambda>r. dt_date (date r) = k)
           (filter (\<lambda>r. to_datetime (e - 6) \<le> date r \<and> date r \<le> to_datetime e) log_df) =
        filter (\<lambda>r. (to_datetime (e - 6) \<le> date r \<and> date r \<le> to_datetime e)
                     \<and> dt_date (date r) = k) log_df"
    by simp
  also have "\<dots> = filter (\<lambda>r. date r = to_datetime k) log_df"
  proof (rule filter_cong [OF refl])
    fix x assume "x \<in> set log_df"
    with mid have "date x = to_datetime (dt_date (date x))" by simp
    then show "((to_datetime (e - 6) \<le> date x \<and> date x \<le> to_datetime e)
                 \<and> dt_date (date x) = k) = (date x = to_datetime k)"
      using y(2,3) yk by (auto simp: dt_date_to_datetime)
  qed
  also have "\<dots> = fst (daily_summary log_df k)"
    by (simp add: daily_summary_def Let_def)
  finally show ?thesis .
qed

text \<open>
  Claim C9, as the code has it. \<^verbatim>\<open>daily_summary\<close> matches rows by equality with
  midnight of the day, so a row whose timestamp falls on day \<open>d\<close> at another time of
  day is left out of the daily totals of \<open>d\<close>. \<^verbatim>\<open>weekly_summary\<close> for the end day \<open>e\<close>
  returns on such a log, and it keeps the row, and then has a row for day \<open>d\<close>, exactly
  when \<open>d < e \<le> d + 6\<close>: for \<open>e = d\<close> the row lies beyond the upper bound of the window
  (midnight of \<open>e\<close>) and is left out of the rollup as well. On a log whose timestamps
  are all at midnight, every row of a rollup is summed over exactly the rows that
  \<^verbatim>\<open>daily_summary\<close> selects for its day.
\<close>

theorem time_of_day_rows:
  "(r \<in> set log_df \<and> dt_date (date r) = d \<and> date r \<noteq> to_datetime d \<longrightarrow>
       r \<notin> set (fst (daily_summary log_df d))
     \<and> (\<exists>week by_day.
          weekly_summary log_df e = Inr (week, by_day)
        \<and> (r \<in> set week \<longleftrightarrow> d < e \<and> e \<le> d + 6)
        \<and> (d < e \<and> e \<le> d + 6 \<longrightarrow> d \<in> set (map bd_date by_day))))
   \<and> ((\<forall>x \<in> set log_df. date x = to_datetime (dt_date (date x)))
        \<and> weekly_summary log_df e = Inr (week, by_day) \<longrightarrow>
       (\<forall>row \<in> set by_day.
          filter (\<lambda>r. dt_date (date r) = bd_date row) week =
          fst (daily_summary log_df (bd_date row))))"
proof (intro conjI impI ballI)
  assume h: "r \<in> set log_df \<and> dt_date (date r) = d \<and> date r \<noteq> to_datetime d"
  show "r \<notin> set (fst (daily_summary log_df d))"
    using h by (simp add: daily_summary_def Let_def)
  define wk where
    "wk = filter (\<lambda>r. to_datetime (e - 6) \<le> date r \<and> date r \<le> to_datetime e) log_df"
  from h have "log_df \<noteq> []" by auto
  then have ret: "weekly_summary log_df e = Inr (wk, groupby_date_sum wk)"
    by (simp add: weekly_summary_rows wk_def)
  have in_week: "r \<in> set wk \<longleftrightarrow> d < e \<and> e \<le> d + 6"
    using h in_week_time_of_day [of "date r" d e] by (simp add: wk_def)
  have has_row: "d \<in> set (map bd_date (groupby_date_sum wk))" if "d < e \<and> e \<le> d + 6"
  proof -
    from that in_week have "r \<in> set wk" by simp
    with h have "d \<in> (\<lambda>r. dt_date (date r)) ` set wk" by force
    then show ?thesis by (simp only: set_groupby_dates)
  qed
  from ret in_week has_row
  show "\<exists>week by_day.
          weekly_summary log_df e = Inr (week, by_day)
        \<and> (r \<in> set week \<longleftrightarrow> d < e \<and> e \<le> d + 6)
        \<and> (d < e \<and> e \<le> d + 6 \<longrightarrow> d \<in> set (map bd_date by_day))"
    by blast
next
  fix row
  assume a: "(\<forall>x \<in> set log_df. date x = to_datetime (dt_date (date x)))
        \<and> weekly_summary log_df e = Inr (week, by_day)"
    and row: "row \<in> set by_day"
  from a have mid: "\<forall>x \<in> set log_df. date x = to_datetime (dt_date (date x))"
    and ret: "weekly_summary log_df e = Inr (week, by_day)"
    by simp_all
  from ret have "log_df \<noteq> []"
    by (auto simp: weekly_summary_empty)
  from weekly_summary_rows [OF this, of e] ret
  have week: "week =
      filter (\<lambda>r. to_datetime (e - 6) \<le> date r \<and> date r \<le> to_datetime e) log_df"
    and by_day: "by_day = groupby_date_sum week"
    by simp_all
  from row have "bd_date row \<in> set (map bd_date (groupby_date_sum week))"
    by (simp add: by_day)
  then have "bd_date row \<in> (\<lambda>r. dt_date (date r)) ` set week"
    by (simp only: set_groupby_dates)
  then show "filter (\<lambda>r. dt_date (date r) = bd_date row) week =
          fst (daily_summary log_df (bd_date row))"
    unfolding week using mid by (intro midnight_group)
qed

text \<open>
  The row of 2024-01-04 08:00 is in the week that ends on 2024-01-05 and not in the
  daily totals of 2024-01-04; on the three midnight rows the rollup row of 2024-01-01
  is summed over the two rows that the daily totals of that day are summed over.
\<close>

theorem time_of_day_rows_witness:
  "(oats_jan4_8am \<in> set sample_log \<and> dt_date (date oats_jan4_8am) = 19726
      \<and> date oats_jan4_8am \<noteq> to_datetime 19726)
   \<and> ((19726::int) < 19727 \<and> (19727::int) \<le> 19726 + 6)
   \<and> oats_jan4_8am \<notin> set (fst (daily_summary sample_log 19726))
   \<and> weekly_summary sample_log 19727 =
       Inr ([oats_jan1, chicken_jan1, oats_jan3, oats_jan4_8am],
            [\<lparr>bd_date = 19723, bd_calories = Num (5195 / 10), bd_protein_g = Num (685 / 10),
              bd_sat_fat_g = Num (26 / 10)\<rparr>,
             \<lparr>bd_date = 19725, bd_calories = Num 379, bd_protein_g = Num 13,
              bd_sat_fat_g = Num (12 / 10)\<rparr>,
             \<lparr>bd_date = 19726, bd_calories = Num (1895 / 10), bd_protein_g = Num (65 / 10),
              bd_sat_fat_g = Num (6 / 10)\<rparr>])
   \<and> list_all (\<lambda>x. date x = to_datetime (dt_date (date x))) written_log
   \<and> filter (\<lambda>r. dt_date (date r) = 19723) [oats_jan1, chicken_jan1, oats_jan3] =
       fst (daily_summary written_log 19723)
   \<and> fst (daily_summary written_log 19723) = [oats_jan1, chicken_jan1]"
proof -
  let ?row = "\<lparr>bd_date = 19723, bd_calories = Num (5195 / 10), bd_protein_g = Num (685 / 10),
       bd_sat_fat_g = Num (26 / 10)\<rparr>"
  let ?by_day = "[?row, \<lparr>bd_date = 19725, bd_calories = Num 379, bd_protein_g = Num 13,
        bd_sat_fat_g = Num (12 / 10)\<rparr>]"
  have h: "oats_jan4_8am \<in> set sample_log \<and> dt_date (date oats_jan4_8am) = 19726
      \<and> date oats_jan4_8am \<noteq> to_datetime 19726"
    by (simp add: sample_defs date_defs)
  have e: "(19726::int) < 19727 \<and> (19727::int) \<le> 19726 + 6" by simp
  from time_of_day_rows [of oats_jan4_8am sample_log 19726 19727] h
  have first: "oats_jan4_8am \<notin> set (fst (daily_summary sample_log 19726))"
    by blast
  have mem: "?row \<in> set ?by_day" by simp
  from time_of_day_rows [of r written_log d 19726 "[oats_jan1, chicken_jan1, oats_jan3]" ?by_day]
    written_midnight written_week mem
  have "filter (\<lambda>r. dt_date (date r) = bd_date ?row) [oats_jan1, chicken_jan1, oats_jan3] =
          fst (daily_summary written_log (bd_date ?row))"
    by blast
  then have second: "filter (\<lambda>r. dt_date (date r) = 19723) [oats_jan1, chicken_jan1, oats_jan3] =
       fst (daily_summary written_log 19723)"
    by simp
  have third: "fst (daily_summary written_log 19723) = [oats_jan1, chicken_jan1]"
    by (simp add: daily_summary_def Let_def sample_defs date_defs)
  from written_midnight
  have mid: "list_all (\<lambda>x. date x = to_datetime (dt_date (date x))) written_log"
    by (simp only: list_all_iff)
  from h e first sample_next_week mid second third show ?thesis by blast
qed

text \<open>
  With the end day 2024-01-04 itself, the row of 08:00 on that day is in neither
  aggregate, and the rollup has no row for that day.
\<close>

theorem time_of_day_rows_counterexample:
  "oats_jan4_8am \<in> set sample_log
   \<and> dt_date (date oats_jan4_8am) = 19726
   \<and> date oats_jan4_8am \<noteq> to_datetime 19726
   \<and> oats_jan4_8am \<notin> set (fst (daily_summary sample_log 19726))
   \<and> oats_jan4_8am \<notin> set [oats_jan1, chicken_jan1, oats_jan3]
   \<and> weekly_summary sample_log 19726 =
       Inr ([oats_jan1, chicken_jan1, oats_jan3],
            [\<lparr>bd_date = 19723, bd_calories = Num (5195 / 10), bd_protein_g = Num (685 / 10),
              bd_sat_fat_g = Num (26 / 10)\<rparr>,
             \<lparr>bd_date = 19725, bd_calories = Num 379, bd_protein_g = Num 13,
              bd_sat_fat_g = Num (12 / 10)\<rparr>])"
  by (simp add: sample_week daily_summary_def Let_def) (simp add: sample_defs date_defs)

section \<open>Writing the log\<close>

text \<open>
  Claim C8. The button "Add to log" always succeeds, and the log it saves is the old
  log with the one new row appended at the end: every row of the old log is still
  there, unchanged and at its place. The new row carries the scaled nutrients, the
  base amount and unit of the food, midnight of the chosen date, the name and the
  quantity.
\<close>

theorem add_to_log_appends:
  "add_to_log log_date food_choice food_row qty st =
     Inr (success,
          st\<lparr>log_csv := log_csv st @
             [\<lparr>calories = f_mul (calories food_row) (f_div qty (base_amount food_row)),
               protein_g = f_mul (protein_g food_row) (f_div qty (base_amount food_row)),
               fat_g = f_mul (fat_g food_row) (f_div qty (base_amount food_row)),
               sat_fat_g = f_mul (sat_fat_g food_row) (f_div qty (base_amount food_row)),
               base_amount = base_amount food_row, unit = unit food_row,
               date = to_datetime log_date, food = food_choice, quantity = qty\<rparr>]\<rparr>)"
  by (simp add: add_to_log_def compute_nutrients_returns new_log_row_def save_log_def)

text \<open>Logging 50 g of rolled oats on 2024-01-01 after a row of chicken.\<close>

theorem add_to_log_appends_witness:
  "add_to_log 19723 (str ''Rolled oats (dry)'') rolled_oats (Num 50)
       (fresh\<lparr>log_csv := [chicken_jan1]\<rparr>) =
     Inr (success, fresh\<lparr>log_csv := [chicken_jan1, oats_jan1]\<rparr>)"
  using add_to_log_appends [of 19723 "str ''Rolled oats (dry)''" rolled_oats "Num 50"
      "fresh\<lparr>log_csv := [chicken_jan1]\<rparr>"]
  by (simp add: rolled_oats_def oats_jan1_def)

text \<open>
  Claim C5, as the code has it. The upload of a log validates nothing: for every
  parsed table of entries, whatever its quantities, it does not fail and the stored
  log is replaced by that table as a whole.
\<close>

theorem upload_log_replaces:
  "upload_log new_log st = Inr (success, st\<lparr>log_csv := new_log\<rparr>)
   \<and> upload_log new_log st \<noteq> Inl ValidationError"
  by (simp add: upload_log_def save_log_def)

text \<open>A table with a quantity of -100 replaces the sample log.\<close>

theorem upload_negative_quantity_counterexample:
  "quantity negative_row = Num (- 100)
   \<and> upload_log [negative_row] (fresh\<lparr>log_csv := sample_log\<rparr>) =
       Inr (success, fresh\<lparr>log_csv := [negative_row]\<rparr>)
   \<and> upload_log [negative_row] (fresh\<lparr>log_csv := sample_log\<rparr>) \<noteq> Inl ValidationError
   \<and> [negative_row] \<noteq> sample_log"
  by (simp add: upload_log_def save_log_def negative_row_def sample_log_def)

section \<open>The food catalog\<close>

lemma food_row_of_append:
  assumes "r \<in> set foods" and "name r = n"
  shows "food_row_of (foods @ [new]) n = food_row_of foods n"
proof -
  from assms have "filter (\<lambda>x. name x = n) foods \<noteq> []"
    by (auto simp: filter_empty_conv)
  then show ?thesis
    by (cases "filter (\<lambda>x. name x = n) foods") (simp_all add: food_row_of_def)
qed

lemma strip_oats: "strip (str ''Rolled oats (dry)'') = str ''Rolled oats (dry)''"
  by (simp add: strip_def isspace_def str_def)

lemma strip_padded_chicken: "strip padded_chicken = str ''Chicken breast (raw)''"
  by (simp add: strip_def isspace_def str_def padded_chicken_def)

text \<open>A name of Unicode whitespace only is blank: the button warns and writes nothing.\<close>

lemma strip_unicode_blank: "strip [0xA0, 0x2003, 0x85, 0x3000] = []"
  by (simp add: strip_def isspace_def)

lemma add_food_blank:
  "strip nm = [] \<Longrightarrow> add_food nm base u cal protein fat sat_fat st = Inr (warning, st)"
  by (simp add: add_food_def)

text \<open>
  Claim C7, as the code has it. The button "Add food" has no check of the name against
  the catalog: when the catalog holds a food of the (stripped, non-blank) name, the
  button still succeeds and appends the new definition, so the catalog then holds at
  least two rows of that name. The lookup by name keeps resolving to the row it
  resolved to before.
\<close>

theorem add_food_duplicate_name:
  assumes "r \<in> set (foods_csv st)" and "name r = strip nm" and "strip nm \<noteq> []"
  shows "add_food nm base u cal protein fat sat_fat st =
           Inr (success,
                st\<lparr>foods_csv := foods_csv st @
                   [\<lparr>calories = cal, protein_g = protein, fat_g = fat, sat_fat_g = sat_fat,
                     base_amount = base, unit = u, name = strip nm\<rparr>]\<rparr>)
       \<and> 2 \<le> length (filter (\<lambda>x. name x = strip nm)
                (foods_csv st @
                   [\<lparr>calories = cal, protein_g = protein, fat_g = fat, sat_fat_g = sat_fat,
                     base_amount = base, unit = u, name = strip nm\<rparr>]))
       \<and> food_row_of
           (foods_csv st @
              [\<lparr>calories = cal, protein_g = protein, fat_g = fat, sat_fat_g = sat_fat,
                base_amount = base, unit = u, name = strip nm\<rparr>]) (strip nm) =
         food_row_of (foods_csv st) (strip nm)"
proof (intro conjI)
  show "add_food nm base u cal protein fat sat_fat st =
           Inr (success,
                st\<lparr>foods_csv := foods_csv st @
                   [\<lparr>calories = cal, protein_g = protein, fat_g = fat, sat_fat_g = sat_fat,
                     base_amount = base, unit = u, name = strip nm\<rparr>]\<rparr>)"
    using assms(3) by (simp add: add_food_def save_foods_def Let_def)
  from assms(1,2) have "filter (\<lambda>x. name x = strip nm) (foods_csv st) \<noteq> []"
    by (auto simp: filter_empty_conv)
  then have "1 \<le> length (filter (\<lambda>x. name x = strip nm) (foods_csv st))"
    by (cases "filter (\<lambda>x. name x = strip nm) (foods_csv st)") simp_all
  then show "2 \<le> length (filter (\<lambda>x. name x = strip nm)
                (foods_csv st @
                   [\<lparr>calories = cal, protein_g = protein, fat_g = fat, sat_fat_g = sat_fat,
                     base_amount = base, unit = u, name = strip nm\<rparr>]))"
    by simp
  show "food_row_of
           (foods_csv st @
              [\<lparr>calories = cal, protein_g = protein, fat_g = fat, sat_fat_g = sat_fat,
                base_amount = base, unit = u, name = strip nm\<rparr>]) (strip nm) =
         food_row_of (foods_csv st) (strip nm)"
    using assms(1,2) by (rule food_row_of_append)
qed

text \<open>
  With three rows in the log, a second "Chicken breast (raw)", typed with a no-break
  space in front and an em space and a blank behind, is appended to the seed catalog
  under the stripped name; the lookup still gives the seed row.
\<close>

theorem add_food_duplicate_name_witness:
  "chicken_breast \<in> set (foods_csv logged)
   \<and> name chicken_breast = strip padded_chicken
   \<and> strip padded_chicken \<noteq> []
   \<and> add_food padded_chicken (Num 100) (str ''g'') (Num 120) (Num 23) (Num 2) (Num 1) logged =
       Inr (success,
            logged\<lparr>foods_csv :=
              [chicken_breast, rolled_oats,
               \<lparr>calories = Num 120, protein_g = Num 23, fat_g = Num 2, sat_fat_g = Num 1,
                base_amount = Num 100, unit = str ''g'',
                name = str ''Chicken breast (raw)''\<rparr>]\<rparr>)
   \<and> food_row_of
       [chicken_breast, rolled_oats,
        \<lparr>calories = Num 120, protein_g = Num 23, fat_g = Num 2, sat_fat_g = Num 1,
         base_amount = Num 100, unit = str ''g'', name = str ''Chicken breast (raw)''\<rparr>]
       (str ''Chicken breast (raw)'') = Inr chicken_breast"
proof -
  have h1: "chicken_breast \<in> set (foods_csv logged)"
    by (simp add: logged_def seed_def)
  have h2: "name chicken_breast = strip padded_chicken"
    by (simp add: strip_padded_chicken chicken_breast_def)
  have h3: "strip padded_chicken \<noteq> []"
    by (simp add: strip_padded_chicken str_def)
  have old: "food_row_of (foods_csv logged) (str ''Chicken breast (raw)'') = Inr chicken_breast"
    by (simp add: food_row_of_def logged_def seed_def chicken_breast_def rolled_oats_def str_def)
  from add_food_duplicate_name [OF h1 h2 h3, of "Num 100" "str ''g''" "Num 120" "Num 23" "Num 2" "Num 1"]
  show ?thesis
    using h1 h2 h3 old by (simp add: strip_padded_chicken logged_def seed_def)
qed

text \<open>
  With three rows in the log, a second "Rolled oats (dry)" on the seed catalog: three
  rows in the catalog, no failure.
\<close>

theorem add_food_duplicate_name_counterexample:
  "rolled_oats \<in> set (foods_csv logged) \<and> name rolled_oats = str ''Rolled oats (dry)''
   \<and> add_food (str ''Rolled oats (dry)'') (Num 40) (str ''g'') (Num 150) (Num 5) (Num 3) (Num 1)
       logged =
       Inr (success,
            logged\<lparr>foods_csv :=
              [chicken_breast, rolled_oats,
               \<lparr>calories = Num 150, protein_g = Num 5, fat_g = Num 3, sat_fat_g = Num 1,
                base_amount = Num 40, unit = str ''g'', name = str ''Rolled oats (dry)''\<rparr>]\<rparr>)
   \<and> add_food (str ''Rolled oats (dry)'') (Num 40) (str ''g'') (Num 150) (Num 5) (Num 3) (Num 1)
       logged \<noteq> Inl DuplicateNameError"
  by (simp add: add_food_def strip_oats save_foods_def logged_def seed_def rolled_oats_def)
    (simp add: str_def)

end
